theory Spec2Isabelle
  imports Complex_Main
begin

section \<open>Floating-point values\<close>

text \<open>
  The engines compute with Python floats and numpy \<open>float64\<close> values. A value is either a
  finite number or one of the three IEEE-754 special values. Finite arithmetic is exact
  (rounding, overflow and underflow are not modelled, and the two zeros are one value:
  a quotient by zero that the code may return with either sign has the positive sign
  here); the special
  values follow the IEEE-754 rules that numpy applies: an undefined operation gives
  \<open>NaN\<close>, a division of a nonzero number by zero gives an infinity. numpy reports both
  with a \<open>RuntimeWarning\<close> and returns the value; it raises no exception.
\<close>

datatype npfloat = Fin real | PInf | NInf | NaN

fun fl_neg :: "npfloat \<Rightarrow> npfloat" where
  "fl_neg (Fin a) = Fin (- a)"
| "fl_neg PInf = NInf"
| "fl_neg NInf = PInf"
| "fl_neg NaN = NaN"

fun fl_abs :: "npfloat \<Rightarrow> npfloat" where
  "fl_abs (Fin a) = Fin \<bar>a\<bar>"
| "fl_abs PInf = PInf"
| "fl_abs NInf = PInf"
| "fl_abs NaN = NaN"

fun fl_add :: "npfloat \<Rightarrow> npfloat \<Rightarrow> npfloat" where
  "fl_add (Fin a) (Fin b) = Fin (a + b)"
| "fl_add NaN _ = NaN"
| "fl_add _ NaN = NaN"
| "fl_add PInf NInf = NaN"
| "fl_add NInf PInf = NaN"
| "fl_add PInf _ = PInf"
| "fl_add _ PInf = PInf"
| "fl_add NInf _ = NInf"
| "fl_add _ NInf = NInf"

definition fl_sub :: "npfloat \<Rightarrow> npfloat \<Rightarrow> npfloat" where
  "fl_sub x y = fl_add x (fl_neg y)"

fun fl_mul :: "npfloat \<Rightarrow> npfloat \<Rightarrow> npfloat" where
  "fl_mul (Fin a) (Fin b) = Fin (a * b)"
| "fl_mul NaN _ = NaN"
| "fl_mul _ NaN = NaN"
| "fl_mul PInf (Fin b) = (if b = 0 then NaN else if 0 < b then PInf else NInf)"
| "fl_mul NInf (Fin b) = (if b = 0 then NaN else if 0 < b then NInf else PInf)"
| "fl_mul (Fin a) PInf = (if a = 0 then NaN else if 0 < a then PInf else NInf)"
| "fl_mul (Fin a) NInf = (if a = 0 then NaN else if 0 < a then NInf else PInf)"
| "fl_mul PInf PInf = PInf"
| "fl_mul PInf NInf = NInf"
| "fl_mul NInf PInf = NInf"
| "fl_mul NInf NInf = PInf"

fun fl_div :: "npfloat \<Rightarrow> npfloat \<Rightarrow> npfloat" where
  "fl_div (Fin a) (Fin b) =
     (if b \<noteq> 0 then Fin (a / b)
      else if a = 0 then NaN else if 0 < a then PInf else NInf)"
| "fl_div NaN _ = NaN"
| "fl_div _ NaN = NaN"
| "fl_div (Fin a) PInf = Fin 0"
| "fl_div (Fin a) NInf = Fin 0"
| "fl_div PInf (Fin b) = (if 0 \<le> b then PInf else NInf)"
| "fl_div NInf (Fin b) = (if 0 \<le> b then NInf else PInf)"
| "fl_div PInf PInf = NaN"
| "fl_div PInf NInf = NaN"
| "fl_div NInf PInf = NaN"
| "fl_div NInf NInf = NaN"

fun fl_sqrt :: "npfloat \<Rightarrow> npfloat" where
  "fl_sqrt (Fin a) = (if a < 0 then NaN else Fin (sqrt a))"
| "fl_sqrt PInf = PInf"
| "fl_sqrt NInf = NaN"
| "fl_sqrt NaN = NaN"

fun fl_log2 :: "npfloat \<Rightarrow> npfloat" where
  "fl_log2 (Fin a) = (if a < 0 then NaN else if a = 0 then NInf else Fin (log 2 a))"
| "fl_log2 PInf = PInf"
| "fl_log2 NInf = NaN"
| "fl_log2 NaN = NaN"

text \<open>Comparisons: every comparison with \<open>NaN\<close> is false, except \<open>!=\<close>, which is true.\<close>

fun fl_le :: "npfloat \<Rightarrow> npfloat \<Rightarrow> bool" where
  "fl_le (Fin a) (Fin b) = (a \<le> b)"
| "fl_le NaN _ = False"
| "fl_le _ NaN = False"
| "fl_le NInf _ = True"
| "fl_le _ PInf = True"
| "fl_le PInf _ = False"
| "fl_le _ NInf = False"

definition fl_eq :: "npfloat \<Rightarrow> npfloat \<Rightarrow> bool" where
  "fl_eq x y = (x \<noteq> NaN \<and> x = y)"

definition fl_ne :: "npfloat \<Rightarrow> npfloat \<Rightarrow> bool" where
  "fl_ne x y = (\<not> fl_eq x y)"

definition fl_lt :: "npfloat \<Rightarrow> npfloat \<Rightarrow> bool" where
  "fl_lt x y = (fl_le x y \<and> fl_ne x y)"

definition fl_gt :: "npfloat \<Rightarrow> npfloat \<Rightarrow> bool" where
  "fl_gt x y = fl_lt y x"

section \<open>Normalizer\<close>

text \<open>
  \<open>_normalizeScore\<close> and \<open>_normalizeAllScores\<close> of \<open>core/s_engine.py\<close>; \<open>main.py\<close> holds
  the same two methods, character for character. Python's \<open>ValueError\<close> carries its
  message; the one raised here is the validation error of the specification.
\<close>

datatype error = ValueError string

definition ValidationError :: error where
  "ValidationError = ValueError ''Obtained score <= Maximum score (!= 0)''"

definition normalizeScore :: "npfloat \<Rightarrow> npfloat \<Rightarrow> error + npfloat" where
  "normalizeScore maxScore obtainedScore =
     (if fl_ne obtainedScore obtainedScore then Inr (Fin 0)
      else if (fl_ne maxScore (Fin 0) \<and> fl_eq maxScore maxScore) \<and> fl_le obtainedScore maxScore
        then Inr (fl_mul (fl_div obtainedScore maxScore) (Fin 10))
      else Inl ValidationError)"

text \<open>
  The loop of \<open>_normalizeAllScores\<close> over \<open>zip(testScores, maxScores)\<close>, with the list it
  appends to as the accumulator. An exception of \<open>_normalizeScore\<close> leaves the loop and
  the method; the accumulated list is dropped with the frame.
\<close>

fun normalizeLoop :: "(npfloat \<times> npfloat) list \<Rightarrow> npfloat list \<Rightarrow> error + npfloat list" where
  "normalizeLoop [] normalizedTestScores = Inr normalizedTestScores"
| "normalizeLoop ((score, maxScore) # rest) normalizedTestScores =
     (case normalizeScore maxScore score of
        Inl e \<Rightarrow> Inl e
      | Inr normalizedScore \<Rightarrow> normalizeLoop rest (normalizedTestScores @ [normalizedScore]))"

definition normalizeAllScores :: "npfloat list \<Rightarrow> npfloat list \<Rightarrow> error + npfloat list" where
  "normalizeAllScores testScores maxScores = normalizeLoop (zip testScores maxScores) []"

section \<open>numpy reductions\<close>

text \<open>
  The numpy functions the engines call, on a one-dimensional array: \<open>np.sum\<close> (0.0 on an
  empty array), \<open>np.mean\<close> (sum over length), \<open>np.var\<close> with \<open>ddof=0\<close> (mean of the squared
  deviations from the mean), \<open>np.std\<close> (its square root), and \<open>np.max\<close> and \<open>np.min\<close>,
  which propagate \<open>NaN\<close> and raise \<open>ValueError\<close> on an empty array.
\<close>

definition np_sum :: "npfloat list \<Rightarrow> npfloat" where
  "np_sum a = foldl fl_add (Fin 0) a"

definition np_mean :: "npfloat list \<Rightarrow> npfloat" where
  "np_mean a = fl_div (np_sum a) (Fin (real (length a)))"

definition np_var :: "npfloat list \<Rightarrow> npfloat" where
  "np_var a =
     (let arrmean = np_mean a;
          x = map (\<lambda>v. fl_sub v arrmean) a;
          x2 = map (\<lambda>v. fl_mul v v) x
      in fl_div (np_sum x2) (Fin (real (length a))))"

definition np_std :: "npfloat list \<Rightarrow> npfloat" where
  "np_std a = fl_sqrt (np_var a)"

definition fl_maximum :: "npfloat \<Rightarrow> npfloat \<Rightarrow> npfloat" where
  "fl_maximum x y = (if x = NaN \<or> y = NaN then NaN else if fl_le x y then y else x)"

definition fl_minimum :: "npfloat \<Rightarrow> npfloat \<Rightarrow> npfloat" where
  "fl_minimum x y = (if x = NaN \<or> y = NaN then NaN else if fl_le x y then x else y)"

fun np_max :: "npfloat list \<Rightarrow> error + npfloat" where
  "np_max [] =
     Inl (ValueError ''zero-size array to reduction operation maximum which has no identity'')"
| "np_max (x # xs) = Inr (foldl fl_maximum x xs)"

fun np_min :: "npfloat list \<Rightarrow> error + npfloat" where
  "np_min [] =
     Inl (ValueError ''zero-size array to reduction operation minimum which has no identity'')"
| "np_min (x # xs) = Inr (foldl fl_minimum x xs)"

text \<open>
  \<open>scipy.stats.skew\<close> and \<open>np.percentile\<close> are library functions outside the repository;
  the engines only store what they return. They are parameters of the model.
\<close>

record numlib =
  skew :: "npfloat list \<Rightarrow> npfloat"
  percentile :: "npfloat list \<Rightarrow> real \<Rightarrow> npfloat"

section \<open>Reports\<close>

text \<open>
  A report is a Python \<open>dict\<close> from metric name to value, as the list of its items in
  insertion order. \<open>d1 | d2\<close> keeps the keys of \<open>d1\<close> in place, takes the value of \<open>d2\<close>
  where both have the key, and appends the keys only \<open>d2\<close> has. It raises nothing and
  checks nothing.
\<close>

type_synonym report = "(string \<times> npfloat) list"

definition dict_keys :: "report \<Rightarrow> string list" where
  "dict_keys d = map fst d"

definition dict_or :: "report \<Rightarrow> report \<Rightarrow> report" where
  "dict_or d1 d2 =
     map (\<lambda>(k, v). (k, case map_of d2 k of Some v' \<Rightarrow> v' | None \<Rightarrow> v)) d1
     @ filter (\<lambda>(k, v). map_of d1 k = None) d2"

section \<open>The engines of \<open>core/s_engine.py\<close> (raw score pairs)\<close>

record engine =
  name :: string
  testScores :: "npfloat list"
  maxScores :: "npfloat list"
  normalizedTestScores :: "npfloat list"
  maximumScore :: npfloat
  minimumScore :: npfloat

text \<open>
  The constructor of the base class. The natural number threaded through every
  constructor counts the calls of \<open>_normalizeAllScores\<close> made so far.
\<close>

definition StudentPerformanceComputeEngine_init ::
  "npfloat list \<Rightarrow> npfloat list \<Rightarrow> nat \<Rightarrow> (error + engine) \<times> nat" where
  "StudentPerformanceComputeEngine_init ts ms calls =
     (case normalizeAllScores ts ms of
        Inl e \<Rightarrow> (Inl e, Suc calls)
      | Inr v \<Rightarrow>
          (case np_max v of
             Inl e \<Rightarrow> (Inl e, Suc calls)
           | Inr mx \<Rightarrow>
               (case np_min v of
                  Inl e \<Rightarrow> (Inl e, Suc calls)
                | Inr mn \<Rightarrow>
                    (Inr \<lparr>name = ''Basic Compute Engine'', testScores = ts, maxScores = ms,
                          normalizedTestScores = v, maximumScore = mx, minimumScore = mn\<rparr>,
                     Suc calls))))"

text \<open>
  Each of the three subclasses calls the base constructor and then sets its own name
  (and constants that no method changes: \<open>ALPHA\<close>, \<open>BETA\<close>, \<open>logarithmBase\<close>).
\<close>

definition subclass_init ::
  "string \<Rightarrow> npfloat list \<Rightarrow> npfloat list \<Rightarrow> nat \<Rightarrow> (error + engine) \<times> nat" where
  "subclass_init nm ts ms calls =
     (case StudentPerformanceComputeEngine_init ts ms calls of
        (Inl e, calls') \<Rightarrow> (Inl e, calls')
      | (Inr self, calls') \<Rightarrow> (Inr (self\<lparr>name := nm\<rparr>), calls'))"

definition ConsistencyComputeEngine_init ::
  "npfloat list \<Rightarrow> npfloat list \<Rightarrow> nat \<Rightarrow> (error + engine) \<times> nat" where
  "ConsistencyComputeEngine_init = subclass_init ''Consistency Compute Engine''"

definition StatisticsComputeEngine_init ::
  "npfloat list \<Rightarrow> npfloat list \<Rightarrow> nat \<Rightarrow> (error + engine) \<times> nat" where
  "StatisticsComputeEngine_init = subclass_init ''Statistics Compute Engine''"

definition DistributionComputeEngine_init ::
  "npfloat list \<Rightarrow> npfloat list \<Rightarrow> nat \<Rightarrow> (error + engine) \<times> nat" where
  "DistributionComputeEngine_init = subclass_init ''Distribution Compute Engine''"

definition ALPHA :: npfloat where
  "ALPHA = Fin 0.3"

definition BETA :: npfloat where
  "BETA = Fin 0.7"

definition calculateMean :: "engine \<Rightarrow> npfloat" where
  "calculateMean self = np_mean (normalizedTestScores self)"

definition calculateStandardDeviation :: "engine \<Rightarrow> npfloat" where
  "calculateStandardDeviation self = np_std (normalizedTestScores self)"

definition calculateVariance :: "engine \<Rightarrow> npfloat" where
  "calculateVariance self = np_var (normalizedTestScores self)"

definition calculateMeanAbsoluteDeviation :: "engine \<Rightarrow> npfloat" where
  "calculateMeanAbsoluteDeviation self =
     (let sampleDataMean = calculateMean self;
          absoluteDeviations =
            map (\<lambda>x. fl_abs (fl_sub x sampleDataMean)) (normalizedTestScores self)
      in np_mean absoluteDeviations)"

definition returnConsistencyScores :: "engine \<Rightarrow> report" where
  "returnConsistencyScores self =
     (let variance = calculateVariance self;
          standardDeviation = calculateStandardDeviation self;
          consistency =
            fl_div (Fin 1)
              (fl_add (fl_add (Fin 1) (fl_mul ALPHA variance)) (fl_mul BETA standardDeviation))
      in [(''consistency'', consistency), (''mad'', calculateMeanAbsoluteDeviation self)])"

definition checkSkewness :: "numlib \<Rightarrow> engine \<Rightarrow> npfloat" where
  "checkSkewness lib self = skew lib (normalizedTestScores self)"

definition calculatePercentiles :: "numlib \<Rightarrow> engine \<Rightarrow> report" where
  "calculatePercentiles lib self =
     (let q1 = percentile lib (normalizedTestScores self) 25;
          median = percentile lib (normalizedTestScores self) 50;
          q3 = percentile lib (normalizedTestScores self) 75
      in [(''q1'', q1), (''median'', median), (''q3'', q3)])"

definition returnStatistics :: "numlib \<Rightarrow> engine \<Rightarrow> report" where
  "returnStatistics lib self =
     (let coreStats = [(''mean'', calculateMean self), (''skewness'', checkSkewness lib self),
                       (''min'', minimumScore self), (''max'', maximumScore self)];
          percentileStats = calculatePercentiles lib self
      in dict_or coreStats percentileStats)"

definition calculateShannonEntropy :: "engine \<Rightarrow> npfloat" where
  "calculateShannonEntropy self =
     (let sampleData = normalizedTestScores self;
          filteredData = filter (\<lambda>x. fl_gt x (Fin 0)) sampleData;
          total = np_sum filteredData;
          probabilities = map (\<lambda>x. fl_div x total) filteredData;
          h = fl_neg (np_sum (map (\<lambda>p. fl_mul p (fl_log2 p)) probabilities))
      in h)"

definition calculateRange :: "engine \<Rightarrow> npfloat" where
  "calculateRange self = fl_sub (maximumScore self) (minimumScore self)"

definition calculateCoefficientOfVariation :: "engine \<Rightarrow> npfloat" where
  "calculateCoefficientOfVariation self =
     fl_div (calculateStandardDeviation self) (calculateMean self)"

definition returnDistributionScores :: "engine \<Rightarrow> report" where
  "returnDistributionScores self =
     [(''entropy'', calculateShannonEntropy self), (''range'', calculateRange self),
      (''cv'', calculateCoefficientOfVariation self),
      (''std'', calculateStandardDeviation self)]"

subsection \<open>The wrapper class\<close>

record wrapper =
  studentId :: int
  consistencyScoresObj :: engine
  statisticsObj :: engine
  distributionScoresObj :: engine

definition ComputeStudentPerformance_init ::
  "int \<Rightarrow> npfloat list \<Rightarrow> npfloat list \<Rightarrow> nat \<Rightarrow> (error + wrapper) \<times> nat" where
  "ComputeStudentPerformance_init sid ts ms calls =
     (case ConsistencyComputeEngine_init ts ms calls of
        (Inl e, c1) \<Rightarrow> (Inl e, c1)
      | (Inr ce, c1) \<Rightarrow>
          (case StatisticsComputeEngine_init ts ms c1 of
             (Inl e, c2) \<Rightarrow> (Inl e, c2)
           | (Inr se, c2) \<Rightarrow>
               (case DistributionComputeEngine_init ts ms c2 of
                  (Inl e, c3) \<Rightarrow> (Inl e, c3)
                | (Inr de, c3) \<Rightarrow>
                    (Inr \<lparr>studentId = sid, consistencyScoresObj = ce, statisticsObj = se,
                          distributionScoresObj = de\<rparr>, c3))))"

definition compute :: "numlib \<Rightarrow> wrapper \<Rightarrow> report" where
  "compute lib self =
     (let consistencyScores = returnConsistencyScores (consistencyScoresObj self);
          statistics = returnStatistics lib (statisticsObj self);
          distributionScores = returnDistributionScores (distributionScoresObj self);
          allScores = dict_or (dict_or consistencyScores statistics) distributionScores
      in allScores)"

text \<open>A computation request: \<open>ComputeStudentPerformance(id, scores, maxima).compute()\<close>.\<close>

definition compute_request ::
  "numlib \<Rightarrow> int \<Rightarrow> npfloat list \<Rightarrow> npfloat list \<Rightarrow> error + report" where
  "compute_request lib sid ts ms =
     (case fst (ComputeStudentPerformance_init sid ts ms 0) of
        Inl e \<Rightarrow> Inl e
      | Inr w \<Rightarrow> Inr (compute lib w))"

section \<open>The engines of \<open>core/student_perf/student_engine.py\<close> (normalized vector)\<close>

text \<open>
  The second copy of the engines takes the normalized vector from its caller and never
  normalizes. Its methods are defined again here, from its own file.
\<close>

record pengine =
  p_name :: string
  p_normalizedTestScores :: "npfloat list"
  p_maximumScore :: npfloat
  p_minimumScore :: npfloat

definition p_StudentPerformanceComputeEngine_init :: "npfloat list \<Rightarrow> error + pengine" where
  "p_StudentPerformanceComputeEngine_init v =
     (case np_max v of
        Inl e \<Rightarrow> Inl e
      | Inr mx \<Rightarrow>
          (case np_min v of
             Inl e \<Rightarrow> Inl e
           | Inr mn \<Rightarrow>
               Inr \<lparr>p_name = ''Basic Compute Engine'', p_normalizedTestScores = v,
                    p_maximumScore = mx, p_minimumScore = mn\<rparr>))"

definition p_subclass_init :: "string \<Rightarrow> npfloat list \<Rightarrow> error + pengine" where
  "p_subclass_init nm v =
     (case p_StudentPerformanceComputeEngine_init v of
        Inl e \<Rightarrow> Inl e
      | Inr self \<Rightarrow> Inr (self\<lparr>p_name := nm\<rparr>))"

definition p_ConsistencyComputeEngine_init :: "npfloat list \<Rightarrow> error + pengine" where
  "p_ConsistencyComputeEngine_init = p_subclass_init ''Consistency Compute Engine''"

definition p_StatisticsComputeEngine_init :: "npfloat list \<Rightarrow> error + pengine" where
  "p_StatisticsComputeEngine_init = p_subclass_init ''Statistics Compute Engine''"

definition p_DistributionComputeEngine_init :: "npfloat list \<Rightarrow> error + pengine" where
  "p_DistributionComputeEngine_init = p_subclass_init ''Distribution Compute Engine''"

definition p_calculateMean :: "pengine \<Rightarrow> npfloat" where
  "p_calculateMean self = np_mean (p_normalizedTestScores self)"

definition p_calculateStandardDeviation :: "pengine \<Rightarrow> npfloat" where
  "p_calculateStandardDeviation self = np_std (p_normalizedTestScores self)"

definition p_calculateVariance :: "pengine \<Rightarrow> npfloat" where
  "p_calculateVariance self = np_var (p_normalizedTestScores self)"

definition p_calculateMeanAbsoluteDeviation :: "pengine \<Rightarrow> npfloat" where
  "p_calculateMeanAbsoluteDeviation self =
     (let sampleDataMean = p_calculateMean self;
          absoluteDeviations =
            map (\<lambda>x. fl_abs (fl_sub x sampleDataMean)) (p_normalizedTestScores self)
      in np_mean absoluteDeviations)"

definition p_returnConsistencyScores :: "pengine \<Rightarrow> report" where
  "p_returnConsistencyScores self =
     (let variance = p_calculateVariance self;
          standardDeviation = p_calculateStandardDeviation self;
          consistency =
            fl_div (Fin 1)
              (fl_add (fl_add (Fin 1) (fl_mul ALPHA variance)) (fl_mul BETA standardDeviation))
      in [(''consistency'', consistency), (''mad'', p_calculateMeanAbsoluteDeviation self)])"

definition p_checkSkewness :: "numlib \<Rightarrow> pengine \<Rightarrow> npfloat" where
  "p_checkSkewness lib self = skew lib (p_normalizedTestScores self)"

definition p_calculatePercentiles :: "numlib \<Rightarrow> pengine \<Rightarrow> report" where
  "p_calculatePercentiles lib self =
     (let q1 = percentile lib (p_normalizedTestScores self) 25;
          median = percentile lib (p_normalizedTestScores self) 50;
          q3 = percentile lib (p_normalizedTestScores self) 75
      in [(''q1'', q1), (''median'', median), (''q3'', q3)])"

definition p_returnStatistics :: "numlib \<Rightarrow> pengine \<Rightarrow> report" where
  "p_returnStatistics lib self =
     (let coreStats = [(''mean'', p_calculateMean self), (''skewness'', p_checkSkewness lib self),
                       (''min'', p_minimumScore self), (''max'', p_maximumScore self)];
          percentiles = p_calculatePercentiles lib self
      in dict_or coreStats percentiles)"

definition p_calculateShannonEntropy :: "pengine \<Rightarrow> npfloat" where
  "p_calculateShannonEntropy self =
     (let sampleData = p_normalizedTestScores self;
          filteredData = filter (\<lambda>x. fl_gt x (Fin 0)) sampleData;
          total = np_sum filteredData;
          probabilities = map (\<lambda>x. fl_div x total) filteredData;
          h = fl_neg (np_sum (map (\<lambda>p. fl_mul p (fl_log2 p)) probabilities))
      in h)"

definition p_calculateRange :: "pengine \<Rightarrow> npfloat" where
  "p_calculateRange self = fl_sub (p_maximumScore self) (p_minimumScore self)"

definition p_calculateCoefficientOfVariation :: "pengine \<Rightarrow> npfloat" where
  "p_calculateCoefficientOfVariation self =
     fl_div (p_calculateStandardDeviation self) (p_calculateMean self)"

definition p_returnDistributionScores :: "pengine \<Rightarrow> report" where
  "p_returnDistributionScores self =
     [(''entropy'', p_calculateShannonEntropy self), (''range'', p_calculateRange self),
      (''cv'', p_calculateCoefficientOfVariation self),
      (''std'', p_calculateStandardDeviation self)]"

record pwrapper =
  p_studentId :: int
  p_consistencyScoresObj :: pengine
  p_statisticsObj :: pengine
  p_distributionScoresObj :: pengine

definition p_ComputeStudentPerformance_init :: "int \<Rightarrow> npfloat list \<Rightarrow> error + pwrapper" where
  "p_ComputeStudentPerformance_init sid v =
     (case p_ConsistencyComputeEngine_init v of
        Inl e \<Rightarrow> Inl e
      | Inr ce \<Rightarrow>
          (case p_StatisticsComputeEngine_init v of
             Inl e \<Rightarrow> Inl e
           | Inr se \<Rightarrow>
               (case p_DistributionComputeEngine_init v of
                  Inl e \<Rightarrow> Inl e
                | Inr de \<Rightarrow>
                    Inr \<lparr>p_studentId = sid, p_consistencyScoresObj = ce, p_statisticsObj = se,
                         p_distributionScoresObj = de\<rparr>)))"

definition p_compute :: "numlib \<Rightarrow> pwrapper \<Rightarrow> report" where
  "p_compute lib self =
     (let consistencyScores = p_returnConsistencyScores (p_consistencyScoresObj self);
          statistics = p_returnStatistics lib (p_statisticsObj self);
          distributionScores = p_returnDistributionScores (p_distributionScoresObj self);
          allScores = dict_or (dict_or consistencyScores statistics) distributionScores
      in allScores)"

definition p_compute_request :: "numlib \<Rightarrow> int \<Rightarrow> npfloat list \<Rightarrow> error + report" where
  "p_compute_request lib sid v =
     (case p_ComputeStudentPerformance_init sid v of
        Inl e \<Rightarrow> Inl e
      | Inr w \<Rightarrow> Inr (p_compute lib w))"

section \<open>The distribution analyzer of \<open>main.py\<close>\<close>

text \<open>
  \<open>DistributionAnalyzer\<close> normalizes the raw pairs in its constructor, as the engines of
  \<open>s_engine.py\<close> do, and computes the entropy from the filtered scores themselves.
\<close>

record analyzer =
  a_studentId :: int
  a_testScores :: "npfloat list"
  a_maxScores :: "npfloat list"
  a_normalizedTestScores :: "npfloat list"
  a_maximumScore :: npfloat
  a_minimumScore :: npfloat
  a_name :: string

definition DistributionAnalyzer_init ::
  "int \<Rightarrow> npfloat list \<Rightarrow> npfloat list \<Rightarrow> error + analyzer" where
  "DistributionAnalyzer_init sid ts ms =
     (case normalizeAllScores ts ms of
        Inl e \<Rightarrow> Inl e
      | Inr v \<Rightarrow>
          (case np_max v of
             Inl e \<Rightarrow> Inl e
           | Inr mx \<Rightarrow>
               (case np_min v of
                  Inl e \<Rightarrow> Inl e
                | Inr mn \<Rightarrow>
                    Inr \<lparr>a_studentId = sid, a_testScores = ts, a_maxScores = ms,
                         a_normalizedTestScores = v, a_maximumScore = mx, a_minimumScore = mn,
                         a_name = ''Distribution Analyzer Engine''\<rparr>)))"

definition a_calculateShannonEntropy :: "analyzer \<Rightarrow> npfloat" where
  "a_calculateShannonEntropy self =
     (let sampleData = a_normalizedTestScores self;
          probabilities = filter (\<lambda>x. fl_gt x (Fin 0)) sampleData;
          h = fl_neg (np_sum (map (\<lambda>p. fl_mul p (fl_log2 p)) probabilities))
      in h)"

definition main_entropy_request :: "int \<Rightarrow> npfloat list \<Rightarrow> npfloat list \<Rightarrow> error + npfloat" where
  "main_entropy_request sid ts ms =
     (case DistributionAnalyzer_init sid ts ms of
        Inl e \<Rightarrow> Inl e
      | Inr a \<Rightarrow> Inr (a_calculateShannonEntropy a))"

section \<open>Notions of the specification\<close>

text \<open>A normalized value on the scale of the specification: a finite number in \<open>[0, 10]\<close>.\<close>

definition in_scale :: "npfloat \<Rightarrow> bool" where
  "in_scale x = (case x of Fin r \<Rightarrow> 0 \<le> r \<and> r \<le> 10 | _ \<Rightarrow> False)"

definition nonneg_or_nan :: "npfloat \<Rightarrow> bool" where
  "nonneg_or_nan x = (case x of Fin r \<Rightarrow> 0 \<le> r | NaN \<Rightarrow> True | _ \<Rightarrow> False)"

text \<open>
  An invalid pair, in the words of the specification: the obtained score is a number, and
  the maximum is zero or not-a-number, or the obtained score is above the maximum.
\<close>

definition invalid_pair :: "npfloat \<times> npfloat \<Rightarrow> bool" where
  "invalid_pair p =
     (case p of (obtained, maximum) \<Rightarrow>
        obtained \<noteq> NaN \<and> (maximum = Fin 0 \<or> maximum = NaN \<or> fl_gt obtained maximum))"

text \<open>A library instance for concrete runs; no property depends on what it returns.\<close>

definition lib0 :: numlib where
  "lib0 = \<lparr>skew = (\<lambda>a. NaN), percentile = (\<lambda>a q. NaN)\<rparr>"

text \<open>The metric names of the specification, in the order the report holds them.\<close>

definition metric_keys :: "string list" where
  "metric_keys = [''consistency'', ''mad'', ''mean'', ''skewness'', ''min'', ''max'', ''q1'',
                  ''median'', ''q3'', ''entropy'', ''range'', ''cv'', ''std'']"

text \<open>
  The statistics in the words of the specification, over the real numbers: mean,
  population variance (denominator N), population standard deviation, the consistency
  score, and the Shannon entropy of the strictly positive values taken as a probability
  distribution.
\<close>

definition mean_of :: "real list \<Rightarrow> real" where
  "mean_of xs = sum_list xs / real (length xs)"

definition population_variance :: "real list \<Rightarrow> real" where
  "population_variance xs = (\<Sum>x\<leftarrow>xs. (x - mean_of xs)\<^sup>2) / real (length xs)"



definition shannon_entropy :: "real list \<Rightarrow> real" where
  "shannon_entropy xs =
     (let pos = filter (\<lambda>x. 0 < x) xs
      in - (\<Sum>x\<leftarrow>pos. (x / sum_list pos) * log 2 (x / sum_list pos)))"

text \<open>The value a request reports under a metric name; nothing when the request raised.\<close>

definition reported :: "error + report \<Rightarrow> string \<Rightarrow> npfloat option" where
  "reported res k = (case res of Inl e \<Rightarrow> None | Inr r \<Rightarrow> map_of r k)"

text \<open>An input value that is a finite number or not-a-number.\<close>

definition not_infinite :: "npfloat \<Rightarrow> bool" where
  "not_infinite x = (x \<noteq> PInf \<and> x \<noteq> NInf)"


text \<open>
  No probability of the entropy computation is below \<open>2^-1000\<close>: every positive value,
  divided by the sum of the positive values, stays far above the smallest double, so that
  the division does not underflow to 0.
\<close>

definition no_underflow :: "real list \<Rightarrow> bool" where
  "no_underflow xs =
     (\<forall>x \<in> set xs. 0 < x \<longrightarrow> 1 / 2 ^ 1000 \<le> x / sum_list (filter (\<lambda>x. 0 < x) xs))"

section \<open>Properties of the normalizer\<close>

lemma fl_ne_self: "fl_ne x x \<longleftrightarrow> x = NaN"
  by (simp add: fl_ne_def fl_eq_def)

lemma fl_eq_self: "fl_eq x x \<longleftrightarrow> x \<noteq> NaN"
  by (simp add: fl_eq_def)

lemma fl_ne_zero: "fl_ne x (Fin 0) \<longleftrightarrow> x \<noteq> Fin 0"
  by (cases x) (simp_all add: fl_ne_def fl_eq_def)

lemma not_fl_le_iff_gt: "x \<noteq> NaN \<Longrightarrow> y \<noteq> NaN \<Longrightarrow> \<not> fl_le x y \<longleftrightarrow> fl_gt x y"
  by (cases x; cases y) (auto simp: fl_gt_def fl_lt_def fl_ne_def fl_eq_def)

text \<open>
  C3. The per-pair rule, in the order of the specification: a not-a-number obtained score
  gives 0.0; otherwise a maximum that is zero or not-a-number, or an obtained score above
  the maximum, raises the validation error; otherwise the value is
  \<open>(obtained / maximum) * 10.0\<close>.
\<close>

theorem normalizeScore_rules:
  "normalizeScore maxScore obtainedScore =
     (if obtainedScore = NaN then Inr (Fin 0)
      else if maxScore = Fin 0 \<or> maxScore = NaN \<or> fl_gt obtainedScore maxScore
        then Inl ValidationError
      else Inr (fl_mul (fl_div obtainedScore maxScore) (Fin 10)))"
proof (cases "obtainedScore = NaN")
  case True
  then show ?thesis by (simp add: normalizeScore_def fl_ne_self)
next
  case obt: False
  show ?thesis
  proof (cases "maxScore = NaN")
    case True
    with obt show ?thesis by (simp add: normalizeScore_def fl_ne_self fl_eq_self)
  next
    case False
    with obt not_fl_le_iff_gt [of obtainedScore maxScore] show ?thesis
      by (auto simp: normalizeScore_def fl_ne_self fl_eq_self fl_ne_zero)
  qed
qed

theorem normalizeScore_rules_witness:
  "normalizeScore (Fin 10) NaN = Inr (Fin 0)
   \<and> normalizeScore (Fin 0) (Fin 5) = Inl ValidationError
   \<and> normalizeScore NaN (Fin 5) = Inl ValidationError
   \<and> normalizeScore (Fin 10) (Fin 11) = Inl ValidationError
   \<and> normalizeScore (Fin 10) (Fin 7) = Inr (Fin 7)"
  using normalizeScore_rules [of "Fin 10" NaN] normalizeScore_rules [of "Fin 0" "Fin 5"]
    normalizeScore_rules [of NaN "Fin 5"] normalizeScore_rules [of "Fin 10" "Fin 11"]
    normalizeScore_rules [of "Fin 10" "Fin 7"]
  by (simp add: fl_gt_def fl_lt_def fl_ne_def fl_eq_def)

text \<open>
  C4, as stated, fails: the pair obtained = -5, maximum = 10 passes validation
  (obtained \<open>\<le>\<close> maximum, maximum nonzero and a number) and its normalized value is -5.
\<close>

theorem normalizeScore_scale_counterexample:
  "fl_le (Fin (-5)) (Fin 10) \<and> Fin 10 \<noteq> Fin 0 \<and> Fin 10 \<noteq> NaN
   \<and> normalizeScore (Fin 10) (Fin (-5)) = Inr (Fin (-5)) \<and> \<not> in_scale (Fin (-5))"
  by (simp add: normalizeScore_def fl_ne_def fl_eq_def in_scale_def)

text \<open>
  C4, amended. For every pair that passes validation and whose obtained score is
  not-a-number or a finite number that is not negative, the normalized value is a finite
  number in the closed interval \<open>[0, 10]\<close>.
\<close>

theorem normalizeScore_in_scale:
  assumes "normalizeScore maxScore obtainedScore = Inr n"
    and "nonneg_or_nan obtainedScore"
  shows "in_scale n"
proof (cases obtainedScore)
  case (Fin a)
  with assms(2) have a: "0 \<le> a" by (simp add: nonneg_or_nan_def)
  from assms(1) Fin have ok: "maxScore \<noteq> Fin 0" "fl_le (Fin a) maxScore"
    and n: "n = fl_mul (fl_div (Fin a) maxScore) (Fin 10)"
    by (auto simp: normalizeScore_def fl_ne_self fl_eq_self fl_ne_zero split: if_splits)
  show ?thesis
  proof (cases maxScore)
    case (Fin b)
    with ok a have "0 < b" "a \<le> b" by auto
    then have "a / b * 10 \<le> 10" "0 \<le> a / b * 10"
      using a by (simp_all add: field_simps)
    moreover from n Fin \<open>0 < b\<close> have "n = Fin (a / b * 10)" by simp
    ultimately show ?thesis by (simp add: in_scale_def)
  qed (use ok n in \<open>simp_all add: in_scale_def\<close>)
next
  case NaN
  with assms(1) have "n = Fin 0" by (simp add: normalizeScore_def fl_ne_self)
  then show ?thesis by (simp add: in_scale_def)
qed (use assms(2) in \<open>simp_all add: nonneg_or_nan_def\<close>)

theorem normalizeScore_in_scale_witness:
  "normalizeScore (Fin 10) (Fin 7) = Inr (Fin 7) \<and> nonneg_or_nan (Fin 7) \<and> in_scale (Fin 7)"
proof -
  have h1: "normalizeScore (Fin 10) (Fin 7) = Inr (Fin 7)"
    by (simp add: normalizeScore_def fl_ne_def fl_eq_def)
  have h2: "nonneg_or_nan (Fin 7)" by (simp add: nonneg_or_nan_def)
  from normalizeScore_in_scale [OF h1 h2] h1 h2 show ?thesis by simp
qed

lemma normalizeScore_Inl_iff:
  "normalizeScore m s = Inl e \<longleftrightarrow> e = ValidationError \<and> invalid_pair (s, m)"
  using not_fl_le_iff_gt [of s m]
  by (cases "s = NaN"; cases "m = NaN")
     (auto simp: normalizeScore_def invalid_pair_def fl_ne_self fl_eq_self fl_ne_zero)

lemma normalizeLoop_append:
  "normalizeLoop (pre @ rest) acc =
     (case normalizeLoop pre acc of Inl e \<Rightarrow> Inl e | Inr acc' \<Rightarrow> normalizeLoop rest acc')"
proof (induction pre arbitrary: acc)
  case Nil
  show ?case by simp
next
  case (Cons p pre)
  obtain s m where p: "p = (s, m)" by (cases p)
  show ?case
    by (cases "normalizeScore m s") (simp_all add: p Cons.IH)
qed

lemma normalizeLoop_valid:
  "\<forall>q \<in> set pre. \<not> invalid_pair q \<Longrightarrow> \<exists>acc'. normalizeLoop pre acc = Inr acc'"
proof (induction pre arbitrary: acc)
  case Nil
  show ?case by simp
next
  case (Cons p pre)
  obtain s m where p: "p = (s, m)" by (cases p)
  from Cons.prems p have "\<not> invalid_pair (s, m)" by simp
  then obtain n where n: "normalizeScore m s = Inr n"
    using normalizeScore_Inl_iff [of m s] by (cases "normalizeScore m s") auto
  from Cons.prems have "\<forall>q \<in> set pre. \<not> invalid_pair q" by simp
  from Cons.IH [OF this] show ?case by (simp add: p n)
qed

lemma normalizeLoop_stops:
  assumes "\<forall>q \<in> set pre. \<not> invalid_pair q" and "invalid_pair p"
  shows "normalizeLoop (pre @ p # post) acc = Inl ValidationError"
proof -
  obtain s m where p: "p = (s, m)" by (cases p)
  from assms(2) p have "normalizeScore m s = Inl ValidationError"
    by (simp add: normalizeScore_Inl_iff)
  moreover obtain acc' where "normalizeLoop pre acc = Inr acc'"
    using normalizeLoop_valid [OF assms(1)] by blast
  ultimately show ?thesis by (simp add: normalizeLoop_append p)
qed

lemma init_fails:
  assumes "normalizeAllScores ts ms = Inl e"
  shows "fst (ComputeStudentPerformance_init sid ts ms calls) = Inl e"
  using assms
  by (simp add: ComputeStudentPerformance_init_def ConsistencyComputeEngine_init_def
      subclass_init_def StudentPerformanceComputeEngine_init_def)

text \<open>
  C9. When the zipped input holds an invalid pair, \<open>_normalizeAllScores\<close> raises the
  validation error, and so do the constructor of the wrapper and the whole request: no
  vector and no report is returned. The exception is raised at the first invalid pair of
  the input: the pairs before it are valid, and whatever follows it is not looked at.
\<close>

theorem invalid_pair_aborts:
  assumes "\<exists>p \<in> set (zip ts ms). invalid_pair p"
  shows "normalizeAllScores ts ms = Inl ValidationError
    \<and> fst (ComputeStudentPerformance_init sid ts ms calls) = Inl ValidationError
    \<and> compute_request lib sid ts ms = Inl ValidationError
    \<and> (\<exists>pre p post. zip ts ms = pre @ p # post \<and> (\<forall>q \<in> set pre. \<not> invalid_pair q)
          \<and> invalid_pair p
          \<and> (\<forall>post' acc. normalizeLoop (pre @ p # post') acc = Inl ValidationError))"
proof -
  from split_list_first_prop [OF assms]
  obtain pre p post where split: "zip ts ms = pre @ p # post"
    and p: "invalid_pair p" and pre: "\<forall>q \<in> set pre. \<not> invalid_pair q"
    by blast
  have stop: "normalizeLoop (pre @ p # post') acc = Inl ValidationError" for post' acc
    using normalizeLoop_stops [OF pre p] .
  then have all: "normalizeAllScores ts ms = Inl ValidationError"
    by (simp add: normalizeAllScores_def split)
  have "fst (ComputeStudentPerformance_init sid ts ms calls) = Inl ValidationError"
    using init_fails [OF all] .
  moreover have "compute_request lib sid ts ms = Inl ValidationError"
    using init_fails [OF all, of sid 0] by (simp add: compute_request_def)
  ultimately show ?thesis using all split p pre stop by blast
qed

theorem invalid_pair_aborts_witness:
  "(\<exists>p \<in> set (zip [Fin 7, Fin 11, Fin 3] [Fin 10, Fin 10, Fin 0]). invalid_pair p)
   \<and> normalizeAllScores [Fin 7, Fin 11, Fin 3] [Fin 10, Fin 10, Fin 0] = Inl ValidationError
   \<and> compute_request lib0 1 [Fin 7, Fin 11, Fin 3] [Fin 10, Fin 10, Fin 0] = Inl ValidationError"
proof -
  have h: "\<exists>p \<in> set (zip [Fin 7, Fin 11, Fin 3] [Fin 10, Fin 10, Fin 0]). invalid_pair p"
    by (simp add: invalid_pair_def fl_gt_def fl_lt_def fl_ne_def fl_eq_def)
  from invalid_pair_aborts [OF h, of 1 0 lib0] h show ?thesis by blast
qed

section \<open>Properties of the wrapper and its report\<close>

lemma base_init_cases:
  "StudentPerformanceComputeEngine_init ts ms calls =
     (case normalizeAllScores ts ms of
        Inl e \<Rightarrow> (Inl e, Suc calls)
      | Inr v \<Rightarrow>
          (case v of
             [] \<Rightarrow> (Inl (ValueError ''zero-size array to reduction operation maximum which has no identity''), Suc calls)
           | x # xs \<Rightarrow>
               (Inr \<lparr>name = ''Basic Compute Engine'', testScores = ts, maxScores = ms,
                     normalizedTestScores = v, maximumScore = foldl fl_maximum x xs,
                     minimumScore = foldl fl_minimum x xs\<rparr>, Suc calls)))"
  by (simp add: StudentPerformanceComputeEngine_init_def split: sum.splits list.splits)

lemma subclass_init_Inr:
  assumes "subclass_init nm ts ms calls = (Inr self, calls')"
  shows "calls' = Suc calls \<and> normalizeAllScores ts ms = Inr (normalizedTestScores self)
     \<and> np_max (normalizedTestScores self) = Inr (maximumScore self)
     \<and> np_min (normalizedTestScores self) = Inr (minimumScore self)"
  using assms
  by (auto simp: subclass_init_def base_init_cases split: sum.splits list.splits)

text \<open>
  C8, as stated, fails: for the pairs scores = [8], maxima = [10] the constructor of the
  wrapper runs \<open>_normalizeAllScores\<close> three times, not once.
\<close>

theorem normalization_once_counterexample:
  "snd (ComputeStudentPerformance_init 1 [Fin 8] [Fin 10] 0) = 3"
  by (simp add: ComputeStudentPerformance_init_def ConsistencyComputeEngine_init_def
      StatisticsComputeEngine_init_def DistributionComputeEngine_init_def
      subclass_init_def base_init_cases normalizeAllScores_def normalizeScore_def
      fl_ne_def fl_eq_def)

text \<open>
  C8, amended. For every request that the constructor of the wrapper accepts, the input
  pairs are normalized three times, once in the constructor of each engine, and each of
  the three engines holds its own vector; the three vectors are equal, each being the
  result of \<open>_normalizeAllScores\<close> on the same input.
\<close>

theorem each_engine_normalizes:
  assumes "ComputeStudentPerformance_init sid ts ms calls = (Inr w, calls')"
  shows "calls' = calls + 3
    \<and> normalizeAllScores ts ms = Inr (normalizedTestScores (consistencyScoresObj w))
    \<and> normalizeAllScores ts ms = Inr (normalizedTestScores (statisticsObj w))
    \<and> normalizeAllScores ts ms = Inr (normalizedTestScores (distributionScoresObj w))"
proof -
  from assms obtain ce c1 se c2 de where
    ce: "subclass_init ''Consistency Compute Engine'' ts ms calls = (Inr ce, c1)" and
    se: "subclass_init ''Statistics Compute Engine'' ts ms c1 = (Inr se, c2)" and
    de: "subclass_init ''Distribution Compute Engine'' ts ms c2 = (Inr de, calls')" and
    w: "w = \<lparr>studentId = sid, consistencyScoresObj = ce, statisticsObj = se,
             distributionScoresObj = de\<rparr>"
    by (auto simp: ComputeStudentPerformance_init_def ConsistencyComputeEngine_init_def
        StatisticsComputeEngine_init_def DistributionComputeEngine_init_def
        split: prod.splits sum.splits)
  from subclass_init_Inr [OF ce] subclass_init_Inr [OF se] subclass_init_Inr [OF de] w
  show ?thesis by simp
qed

theorem each_engine_normalizes_witness:
  "ComputeStudentPerformance_init 1 [Fin 8] [Fin 10] 0
     = (Inr \<lparr>studentId = 1,
         consistencyScoresObj = \<lparr>name = ''Consistency Compute Engine'', testScores = [Fin 8],
           maxScores = [Fin 10], normalizedTestScores = [Fin 8], maximumScore = Fin 8,
           minimumScore = Fin 8\<rparr>,
         statisticsObj = \<lparr>name = ''Statistics Compute Engine'', testScores = [Fin 8],
           maxScores = [Fin 10], normalizedTestScores = [Fin 8], maximumScore = Fin 8,
           minimumScore = Fin 8\<rparr>,
         distributionScoresObj = \<lparr>name = ''Distribution Compute Engine'', testScores = [Fin 8],
           maxScores = [Fin 10], normalizedTestScores = [Fin 8], maximumScore = Fin 8,
           minimumScore = Fin 8\<rparr>\<rparr>, 3)
   \<and> normalizeAllScores [Fin 8] [Fin 10] = Inr [Fin 8]"
proof -
  have h: "ComputeStudentPerformance_init 1 [Fin 8] [Fin 10] 0
     = (Inr \<lparr>studentId = 1,
         consistencyScoresObj = \<lparr>name = ''Consistency Compute Engine'', testScores = [Fin 8],
           maxScores = [Fin 10], normalizedTestScores = [Fin 8], maximumScore = Fin 8,
           minimumScore = Fin 8\<rparr>,
         statisticsObj = \<lparr>name = ''Statistics Compute Engine'', testScores = [Fin 8],
           maxScores = [Fin 10], normalizedTestScores = [Fin 8], maximumScore = Fin 8,
           minimumScore = Fin 8\<rparr>,
         distributionScoresObj = \<lparr>name = ''Distribution Compute Engine'', testScores = [Fin 8],
           maxScores = [Fin 10], normalizedTestScores = [Fin 8], maximumScore = Fin 8,
           minimumScore = Fin 8\<rparr>\<rparr>, 3)"
    by (simp add: ComputeStudentPerformance_init_def ConsistencyComputeEngine_init_def
      StatisticsComputeEngine_init_def DistributionComputeEngine_init_def
      subclass_init_def base_init_cases normalizeAllScores_def normalizeScore_def
      fl_ne_def fl_eq_def)
  from each_engine_normalizes [OF h] h show ?thesis by simp
qed

lemma keys_consistency: "dict_keys (returnConsistencyScores e) = [''consistency'', ''mad'']"
  by (simp add: returnConsistencyScores_def dict_keys_def Let_def)

lemma keys_statistics:
  "dict_keys (returnStatistics lib e) =
     [''mean'', ''skewness'', ''min'', ''max'', ''q1'', ''median'', ''q3'']"
  by (simp add: returnStatistics_def calculatePercentiles_def dict_keys_def dict_or_def Let_def)

lemma keys_distribution:
  "dict_keys (returnDistributionScores e) = [''entropy'', ''range'', ''cv'', ''std'']"
  by (simp add: returnDistributionScores_def dict_keys_def)

lemma keys_dict_or:
  "dict_keys (dict_or d1 d2) = dict_keys d1 @ filter (\<lambda>k. k \<notin> set (dict_keys d1)) (dict_keys d2)"
proof -
  have "map fst (filter (\<lambda>(k, v). map_of d1 k = None) d2)
      = filter (\<lambda>k. k \<notin> fst ` set d1) (map fst d2)"
    by (induction d2) (force simp: map_of_eq_None_iff)+
  then show ?thesis
    by (simp add: dict_or_def dict_keys_def case_prod_unfold comp_def)
qed

text \<open>
  C2, amended. The merged report holds exactly the thirteen metric keys that the
  specification lists, each once; the key sets of the three engines are pairwise disjoint,
  and the merged key set is their union. The merge itself checks nothing.
\<close>

theorem merged_keys:
  "dict_keys (compute lib w) = metric_keys
   \<and> length metric_keys = 13 \<and> distinct metric_keys
   \<and> set (dict_keys (returnConsistencyScores (consistencyScoresObj w)))
       \<inter> set (dict_keys (returnStatistics lib (statisticsObj w))) = {}
   \<and> set (dict_keys (returnConsistencyScores (consistencyScoresObj w)))
       \<inter> set (dict_keys (returnDistributionScores (distributionScoresObj w))) = {}
   \<and> set (dict_keys (returnStatistics lib (statisticsObj w)))
       \<inter> set (dict_keys (returnDistributionScores (distributionScoresObj w))) = {}
   \<and> set (dict_keys (compute lib w))
       = set (dict_keys (returnConsistencyScores (consistencyScoresObj w)))
         \<union> set (dict_keys (returnStatistics lib (statisticsObj w)))
         \<union> set (dict_keys (returnDistributionScores (distributionScoresObj w)))"
proof -
  have k: "dict_keys (compute lib w) = metric_keys"
    by (simp add: compute_def Let_def keys_dict_or keys_consistency keys_statistics
        keys_distribution metric_keys_def)
  have d: "distinct metric_keys" "length metric_keys = 13"
    by (simp_all add: metric_keys_def)
  show ?thesis
    unfolding k keys_consistency keys_statistics keys_distribution
    using d by (auto simp: metric_keys_def)
qed

text \<open>
  C2, as stated, fails twice: the report of a request holds thirteen keys, not nine, and
  the merge asserts nothing: on two reports that share a key it returns a report with the
  second value and raises no error.
\<close>

theorem merged_keys_counterexample:
  "(case compute_request lib0 1 [Fin 8] [Fin 10] of
      Inl e \<Rightarrow> 0 | Inr r \<Rightarrow> length (dict_keys r)) = 13
   \<and> (13::nat) \<noteq> 9
   \<and> dict_or [(''cv'', Fin 1)] [(''cv'', Fin 2)] = [(''cv'', Fin 2)]"
proof -
  have "fst (ComputeStudentPerformance_init 1 [Fin 8] [Fin 10] 0) = Inr w \<Longrightarrow>
     length (dict_keys (compute lib0 w)) = 13" for w
    by (simp add: compute_def Let_def keys_dict_or keys_consistency keys_statistics
        keys_distribution)
  moreover have "\<exists>w. fst (ComputeStudentPerformance_init 1 [Fin 8] [Fin 10] 0) = Inr w"
    by (simp add: ComputeStudentPerformance_init_def ConsistencyComputeEngine_init_def
      StatisticsComputeEngine_init_def DistributionComputeEngine_init_def
      subclass_init_def base_init_cases normalizeAllScores_def normalizeScore_def
      fl_ne_def fl_eq_def)
  ultimately have "(case compute_request lib0 1 [Fin 8] [Fin 10] of
      Inl e \<Rightarrow> 0 | Inr r \<Rightarrow> length (dict_keys r)) = 13"
    by (auto simp: compute_request_def)
  moreover have "dict_or [(''cv'', Fin 1)] [(''cv'', Fin 2)] = [(''cv'', Fin 2)]"
    by (simp add: dict_or_def)
  ultimately show ?thesis by simp
qed

section \<open>Statistics of a finite vector in exact arithmetic\<close>

text \<open>
  On a vector of finite values the operations of the model compute the statistics of the
  specification over the real numbers. The code rounds each operation, so these equations
  give its values up to rounding.
\<close>

lemma foldl_fl_add_Fin: "foldl fl_add (Fin a) (map Fin xs) = Fin (a + sum_list xs)"
  by (induction xs arbitrary: a) (simp_all add: add.assoc)

lemma np_sum_Fin: "np_sum (map Fin xs) = Fin (sum_list xs)"
  by (simp add: np_sum_def foldl_fl_add_Fin)





lemma population_variance_zero_iff:
  assumes "xs \<noteq> []"
  shows "population_variance xs = 0 \<longleftrightarrow> (\<forall>x \<in> set xs. x = mean_of xs)"
proof -
  have "(\<Sum>x\<leftarrow>xs. (x - mean_of xs)\<^sup>2) = 0 \<longleftrightarrow> (\<forall>x \<in> set xs. (x - mean_of xs)\<^sup>2 = 0)"
    by (subst sum_list_nonneg_eq_0_iff) auto
  with assms show ?thesis by (simp add: population_variance_def)
qed

lemma all_equal_mean:
  assumes "xs \<noteq> []" and "\<forall>x \<in> set xs. \<forall>y \<in> set xs. x = y"
  shows "\<forall>x \<in> set xs. x = mean_of xs"
proof -
  obtain c where c: "c \<in> set xs" using assms(1) by (cases xs) auto
  with assms(2) have "\<forall>x \<in> set xs. x = c" by blast
  then have "xs = replicate (length xs) c"
    by (simp add: replicate_length_same)
  then have "sum_list xs = real (length xs) * c"
    by (metis sum_list_replicate)
  with assms(1) have "mean_of xs = c" by (simp add: mean_of_def)
  with \<open>\<forall>x \<in> set xs. x = c\<close> show ?thesis by simp
qed

lemma population_variance_zero_iff_identical:
  assumes "xs \<noteq> []"
  shows "population_variance xs = 0 \<longleftrightarrow> (\<forall>x \<in> set xs. \<forall>y \<in> set xs. x = y)"
  using population_variance_zero_iff [OF assms] all_equal_mean [OF assms] by auto




lemma filter_pos_Fin:
  "filter (\<lambda>x. fl_gt x (Fin 0)) (map Fin xs) = map Fin (filter (\<lambda>x. 0 < x) xs)"
  by (induction xs) (auto simp: fl_gt_def fl_lt_def fl_ne_def fl_eq_def)

lemma sum_list_pos:
  fixes xs :: "real list"
  assumes "xs \<noteq> []" and "\<forall>x \<in> set xs. 0 < x"
  shows "0 < sum_list xs"
  using assms
proof (induction xs)
  case Nil
  then show ?case by simp
next
  case (Cons a xs)
  then show ?case
    by (cases "xs = []") (auto intro: add_pos_pos)
qed

lemma fl_log2_pos: "0 < p \<Longrightarrow> fl_log2 (Fin p) = Fin (log 2 p)"
  by simp

lemma fl_div_pos: "0 < S \<Longrightarrow> fl_div (Fin x) (Fin S) = Fin (x / S)"
  by simp

lemma entropy_terms_Fin:
  assumes "\<forall>x \<in> set pos. 0 < x" and "0 < S"
  shows "map (\<lambda>p. fl_mul p (fl_log2 p)) (map (\<lambda>x. fl_div x (Fin S)) (map Fin pos))
       = map Fin (map (\<lambda>x. (x / S) * log 2 (x / S)) pos)"
proof -
  have "fl_mul (fl_div (Fin x) (Fin S)) (fl_log2 (fl_div (Fin x) (Fin S)))
      = Fin ((x / S) * log 2 (x / S))" if "0 < x" for x
  proof -
    from that assms(2) have "0 < x / S" by simp
    then show ?thesis
      by (simp only: fl_div_pos [OF assms(2)] fl_log2_pos fl_mul.simps)
  qed
  with assms(1) show ?thesis by simp
qed

lemma entropy_Fin:
  assumes "normalizedTestScores e = map Fin xs"
  shows "calculateShannonEntropy e = Fin (shannon_entropy xs)"
proof -
  let ?pos = "filter (\<lambda>x. 0 < x) xs"
  show ?thesis
  proof (cases "?pos = []")
    case True
    with assms show ?thesis
      by (simp add: calculateShannonEntropy_def Let_def filter_pos_Fin np_sum_def
          shannon_entropy_def)
  next
    case False
    have allpos: "\<forall>x \<in> set ?pos. 0 < x" by simp
    from sum_list_pos [OF False allpos] have S: "0 < sum_list ?pos" .
    have "np_sum (map (\<lambda>p. fl_mul p (fl_log2 p))
            (map (\<lambda>x. fl_div x (Fin (sum_list ?pos))) (map Fin ?pos)))
        = Fin (\<Sum>x\<leftarrow>?pos. (x / sum_list ?pos) * log 2 (x / sum_list ?pos))"
      by (simp only: entropy_terms_Fin [OF allpos S] np_sum_Fin)
    with assms show ?thesis
      by (simp add: calculateShannonEntropy_def Let_def filter_pos_Fin np_sum_Fin
          shannon_entropy_def del: map_map)
  qed
qed

lemma sum_list_nonpos:
  fixes f :: "real \<Rightarrow> real"
  assumes "\<forall>x \<in> set xs. f x \<le> 0"
  shows "(\<Sum>x\<leftarrow>xs. f x) \<le> 0"
  using assms by (induction xs) (auto intro: add_nonpos_nonpos)

lemma sum_list_neg:
  fixes f :: "real \<Rightarrow> real"
  assumes "xs \<noteq> []" and "\<forall>x \<in> set xs. f x < 0"
  shows "(\<Sum>x\<leftarrow>xs. f x) < 0"
  using assms
proof (induction xs)
  case Nil
  then show ?case by simp
next
  case (Cons a xs)
  then show ?case
    by (cases "xs = []") (auto intro: add_neg_neg)
qed

lemma elem_less_sum:
  fixes pos :: "real list"
  assumes "\<forall>x \<in> set pos. 0 < x" and "2 \<le> length pos" and "x \<in> set pos"
  shows "x < sum_list pos"
proof -
  have eq: "sum_list pos = x + sum_list (remove1 x pos)"
    using sum_list_map_remove1 [OF assms(3), of "\<lambda>x. x"] by simp
  from assms(2,3) have "remove1 x pos \<noteq> []"
    by (cases pos) (auto simp: length_remove1 split: if_splits)
  moreover from assms(1) have "\<forall>y \<in> set (remove1 x pos). 0 < y"
    using set_remove1_subset [of x pos] by blast
  ultimately have "0 < sum_list (remove1 x pos)" by (rule sum_list_pos)
  with eq show ?thesis by simp
qed

lemma shannon_entropy_nonneg: "0 \<le> shannon_entropy xs"
proof -
  let ?pos = "filter (\<lambda>x. 0 < x) xs"
  let ?S = "sum_list ?pos"
  have "(x / ?S) * log 2 (x / ?S) \<le> 0" if "x \<in> set ?pos" for x
  proof -
    from that have ne: "?pos \<noteq> []" by (metis empty_iff list.set(1))
    have allpos: "\<forall>x \<in> set ?pos. 0 < x" by simp
    from sum_list_pos [OF ne allpos] have S: "0 < ?S" .
    from that have x: "0 < x" by simp
    have "x \<le> ?S" using member_le_sum_list [OF that] allpos
      by (metis less_eq_real_def)
    with x S have "0 < x / ?S" "x / ?S \<le> 1" by simp_all
    then have "log 2 (x / ?S) \<le> 0" by simp
    with \<open>0 < x / ?S\<close> show ?thesis by (intro mult_nonneg_nonpos) simp_all
  qed
  then have "(\<Sum>x\<leftarrow>?pos. (x / ?S) * log 2 (x / ?S)) \<le> 0"
    by (intro sum_list_nonpos) blast
  then show ?thesis by (simp add: shannon_entropy_def Let_def)
qed

lemma shannon_entropy_zero_iff:
  "shannon_entropy xs = 0 \<longleftrightarrow> length (filter (\<lambda>x. 0 < x) xs) \<le> 1"
proof -
  let ?pos = "filter (\<lambda>x. 0 < x) xs"
  let ?S = "sum_list ?pos"
  have allpos: "\<forall>x \<in> set ?pos. 0 < x" by simp
  show ?thesis
  proof (cases "2 \<le> length ?pos")
    case True
    then have ne: "?pos \<noteq> []" by auto
    from sum_list_pos [OF ne allpos] have S: "0 < ?S" .
    have "(x / ?S) * log 2 (x / ?S) < 0" if "x \<in> set ?pos" for x
    proof -
      from that have x: "0 < x" by simp
      from elem_less_sum [OF allpos True that] have "x < ?S" .
      with x S have "0 < x / ?S" "x / ?S < 1" by simp_all
      then have "log 2 (x / ?S) < 0" by simp
      with \<open>0 < x / ?S\<close> show ?thesis by (rule mult_pos_neg)
    qed
    then have "(\<Sum>x\<leftarrow>?pos. (x / ?S) * log 2 (x / ?S)) < 0"
      using ne by (intro sum_list_neg) blast+
    then have "shannon_entropy xs \<noteq> 0" by (simp add: shannon_entropy_def Let_def)
    with True show ?thesis by simp
  next
    case False
    then consider "?pos = []" | a where "?pos = [a]"
      by (cases ?pos; cases "tl ?pos") auto
    then have "shannon_entropy xs = 0"
    proof cases
      case 1
      then show ?thesis by (simp add: shannon_entropy_def Let_def)
    next
      case 2
      with allpos have "0 < a" by simp
      with 2 show ?thesis by (simp add: shannon_entropy_def Let_def)
    qed
    with False show ?thesis by simp
  qed
qed



lemma init_Inr:
  assumes "normalizeAllScores ts ms = Inr v" and "v \<noteq> []"
  shows "\<exists>w. fst (ComputeStudentPerformance_init sid ts ms c) = Inr w
    \<and> normalizedTestScores (consistencyScoresObj w) = v
    \<and> normalizedTestScores (statisticsObj w) = v
    \<and> normalizedTestScores (distributionScoresObj w) = v"
  using assms
  by (cases v)
     (simp_all add: ComputeStudentPerformance_init_def ConsistencyComputeEngine_init_def
      StatisticsComputeEngine_init_def DistributionComputeEngine_init_def
      subclass_init_def base_init_cases)

lemma compute_lookup:
  "map_of (compute lib w) ''consistency''
     = map_of (returnConsistencyScores (consistencyScoresObj w)) ''consistency''"
  "map_of (compute lib w) ''cv''
     = Some (calculateCoefficientOfVariation (distributionScoresObj w))"
  "map_of (compute lib w) ''entropy''
     = Some (calculateShannonEntropy (distributionScoresObj w))"
  by (simp_all add: compute_def Let_def dict_or_def returnConsistencyScores_def
      returnStatistics_def calculatePercentiles_def returnDistributionScores_def)

lemma request_report:
  assumes "normalizeAllScores ts ms = Inr v" and "v \<noteq> []"
  shows "\<exists>w. compute_request lib sid ts ms = Inr (compute lib w)
    \<and> normalizedTestScores (consistencyScoresObj w) = v
    \<and> normalizedTestScores (statisticsObj w) = v
    \<and> normalizedTestScores (distributionScoresObj w) = v"
  using init_Inr [OF assms, of sid 0] by (auto simp: compute_request_def)



lemma request_entropy:
  assumes "normalizeAllScores ts ms = Inr (map Fin xs)" and "xs \<noteq> []"
  shows "\<exists>r. compute_request lib sid ts ms = Inr r
    \<and> map_of r ''entropy'' = Some (Fin (shannon_entropy xs))"
proof -
  from assms(2) have "map Fin xs \<noteq> []" by simp
  from request_report [OF assms(1) this, of lib sid]
  obtain w where w: "compute_request lib sid ts ms = Inr (compute lib w)"
    "normalizedTestScores (distributionScoresObj w) = map Fin xs" by blast
  from entropy_Fin [OF w(2)] w(1) show ?thesis
    by (simp add: compute_lookup)
qed

lemma normalize_888:
  "normalizeAllScores [Fin 8, Fin 8, Fin 8] [Fin 10, Fin 10, Fin 10] = Inr (map Fin [8, 8, 8])"
  by (simp add: normalizeAllScores_def normalizeScore_def fl_ne_def fl_eq_def)

lemma log2_3_pos: "0 < log 2 (3::real)"
  by (subst zero_less_log_cancel_iff) simp_all

lemma entropy_888: "shannon_entropy [8, 8, 8] = log 2 3"
proof -
  have third: "(8::real) / sum_list [8, 8, 8] = 1 / 3" by simp
  have "log 2 (1 / 3 :: real) = - log 2 3"
    by (simp add: log_divide)
  then have "- (\<Sum>x\<leftarrow>[8, 8, 8 :: real]. (1 / 3) * log 2 (1 / 3 :: real)) = log 2 3"
    by simp
  moreover have "shannon_entropy [8, 8, 8]
      = - (\<Sum>x\<leftarrow>[8, 8, 8 :: real]. (1 / 3) * log 2 (1 / 3 :: real))"
    unfolding shannon_entropy_def Let_def by (simp only: filter.simps third list.map) simp
  ultimately show ?thesis by simp
qed

text \<open>
  C1, as stated, fails: for scores = [8, 8, 8] and maxima = [10, 10, 10] the normalized
  vector is [8, 8, 8], its positive values have exactly one distinct value, and the
  reported entropy is \<open>log2 3\<close>, not 0.
\<close>

theorem entropy_distinct_counterexample:
  "normalizeAllScores [Fin 8, Fin 8, Fin 8] [Fin 10, Fin 10, Fin 10] = Inr [Fin 8, Fin 8, Fin 8]
   \<and> card (set (filter (\<lambda>x. fl_gt x (Fin 0)) [Fin 8, Fin 8, Fin 8])) = 1
   \<and> reported (compute_request lib0 1 [Fin 8, Fin 8, Fin 8] [Fin 10, Fin 10, Fin 10]) ''entropy''
       = Some (Fin (log 2 3))
   \<and> log 2 3 \<noteq> (0::real)"
proof -
  have "[8, 8, 8 :: real] \<noteq> []" by simp
  from request_entropy [OF normalize_888 this, of lib0 1]
  have "reported (compute_request lib0 1 [Fin 8, Fin 8, Fin 8] [Fin 10, Fin 10, Fin 10])
      ''entropy'' = Some (Fin (log 2 3))"
    by (auto simp: reported_def entropy_888)
  moreover have "card (set (filter (\<lambda>x. fl_gt x (Fin 0)) [Fin 8, Fin 8, Fin 8])) = 1"
    by (simp add: fl_gt_def fl_lt_def fl_ne_def fl_eq_def)
  moreover have "log 2 3 \<noteq> (0::real)" using log2_3_pos by linarith
  ultimately show ?thesis using normalize_888 by simp
qed


lemma normalize_8:
  "normalizeAllScores [Fin 8] [Fin 10] = Inr (map Fin [8])"
  by (simp add: normalizeAllScores_def normalizeScore_def fl_ne_def fl_eq_def)

lemma normalize_10_5_0:
  "normalizeAllScores [Fin 10, Fin 5, Fin 0] [Fin 10, Fin 10, Fin 10] = Inr (map Fin [10, 5, 0])"
  by (simp add: normalizeAllScores_def normalizeScore_def fl_ne_def fl_eq_def)




section \<open>Reported statistics\<close>

text \<open>
  The properties of this section are stated on the values the report holds, through the
  operations of the code (\<open>fl_div\<close>, \<open>np_var\<close>, \<open>np_std\<close>, \<open>np_mean\<close>), and their
  hypotheses keep the computation away from overflow and underflow, so that what they say
  about signs, zero and one does not depend on how a double rounds.
\<close>

lemma compute_lookup_more:
  "map_of (compute lib w) ''std''
     = Some (calculateStandardDeviation (distributionScoresObj w))"
  "map_of (compute lib w) ''mean'' = Some (calculateMean (statisticsObj w))"
  by (simp_all add: compute_def Let_def dict_or_def returnConsistencyScores_def
      returnStatistics_def calculatePercentiles_def returnDistributionScores_def)

lemma request_values:
  assumes "normalizeAllScores ts ms = Inr v" and "v \<noteq> []"
  shows "\<exists>r. compute_request lib sid ts ms = Inr r"
    and "reported (compute_request lib sid ts ms) ''consistency''
       = Some (fl_div (Fin 1)
            (fl_add (fl_add (Fin 1) (fl_mul ALPHA (np_var v))) (fl_mul BETA (np_std v))))"
    and "reported (compute_request lib sid ts ms) ''std'' = Some (np_std v)"
    and "reported (compute_request lib sid ts ms) ''mean'' = Some (np_mean v)"
    and "reported (compute_request lib sid ts ms) ''cv'' = Some (fl_div (np_std v) (np_mean v))"
    and "reported (compute_request lib sid ts ms) ''entropy''
       = Some (let filteredData = filter (\<lambda>x. fl_gt x (Fin 0)) v;
                   probabilities = map (\<lambda>x. fl_div x (np_sum filteredData)) filteredData
               in fl_neg (np_sum (map (\<lambda>p. fl_mul p (fl_log2 p)) probabilities)))"
proof -
  from request_report [OF assms, of lib sid]
  obtain w where w: "compute_request lib sid ts ms = Inr (compute lib w)"
    "normalizedTestScores (consistencyScoresObj w) = v"
    "normalizedTestScores (statisticsObj w) = v"
    "normalizedTestScores (distributionScoresObj w) = v" by blast
  from w(1) show "\<exists>r. compute_request lib sid ts ms = Inr r" by blast
  from w show "reported (compute_request lib sid ts ms) ''consistency''
       = Some (fl_div (Fin 1)
            (fl_add (fl_add (Fin 1) (fl_mul ALPHA (np_var v))) (fl_mul BETA (np_std v))))"
    by (simp add: reported_def compute_lookup returnConsistencyScores_def Let_def
        calculateVariance_def calculateStandardDeviation_def)
  from w show "reported (compute_request lib sid ts ms) ''std'' = Some (np_std v)"
    by (simp add: reported_def compute_lookup_more calculateStandardDeviation_def)
  from w show "reported (compute_request lib sid ts ms) ''mean'' = Some (np_mean v)"
    by (simp add: reported_def compute_lookup_more calculateMean_def)
  from w show "reported (compute_request lib sid ts ms) ''cv''
      = Some (fl_div (np_std v) (np_mean v))"
    by (simp add: reported_def compute_lookup calculateCoefficientOfVariation_def
        calculateStandardDeviation_def calculateMean_def)
  from w show "reported (compute_request lib sid ts ms) ''entropy''
       = Some (let filteredData = filter (\<lambda>x. fl_gt x (Fin 0)) v;
                   probabilities = map (\<lambda>x. fl_div x (np_sum filteredData)) filteredData
               in fl_neg (np_sum (map (\<lambda>p. fl_mul p (fl_log2 p)) probabilities)))"
    by (simp add: reported_def compute_lookup calculateShannonEntropy_def Let_def)
qed

text \<open>
  C1, amended. For every request whose normalized vector is finite, within \<open>[0, 10]\<close> and
  free of underflow, the reported entropy is computed from the strictly positive values,
  each divided by their sum, as \<open>- \<Sum> p * log2 p\<close>. It is a number that is never
  negative, and it is 0 exactly when at most one value of the vector is positive (the
  filtered list is empty or has one element).
\<close>

theorem entropy_properties:
  assumes "normalizeAllScores ts ms = Inr (map Fin xs)" and "xs \<noteq> []"
    and "\<forall>x \<in> set xs. 0 \<le> x \<and> x \<le> 10" and "no_underflow xs"
  shows "reported (compute_request lib sid ts ms) ''entropy''
       = Some (let filteredData = filter (\<lambda>x. fl_gt x (Fin 0)) (map Fin xs);
                   probabilities = map (\<lambda>x. fl_div x (np_sum filteredData)) filteredData
               in fl_neg (np_sum (map (\<lambda>p. fl_mul p (fl_log2 p)) probabilities)))
    \<and> (\<exists>h. reported (compute_request lib sid ts ms) ''entropy'' = Some (Fin h)
          \<and> 0 \<le> h \<and> (h = 0 \<longleftrightarrow> length (filter (\<lambda>x. 0 < x) xs) \<le> 1))"
proof -
  from assms(2) have ne: "map Fin xs \<noteq> []" by simp
  from request_entropy [OF assms(1,2), of lib sid]
  have "reported (compute_request lib sid ts ms) ''entropy'' = Some (Fin (shannon_entropy xs))"
    by (auto simp: reported_def)
  with shannon_entropy_nonneg [of xs] shannon_entropy_zero_iff [of xs]
  have "\<exists>h. reported (compute_request lib sid ts ms) ''entropy'' = Some (Fin h)
          \<and> 0 \<le> h \<and> (h = 0 \<longleftrightarrow> length (filter (\<lambda>x. 0 < x) xs) \<le> 1)"
    by blast
  with request_values(6) [OF assms(1) ne, of lib sid] show ?thesis by blast
qed

lemma normalize_5_5_10:
  "normalizeAllScores [Fin 5, Fin 5, Fin 10] [Fin 10, Fin 10, Fin 10]
     = Inr (map Fin [5, 5, 10])"
  by (simp add: normalizeAllScores_def normalizeScore_def fl_ne_def fl_eq_def)

lemma log2_4: "log 2 (4::real) = 2"
proof -
  have "log 2 ((2::real) ^ 2) = 2" by (subst log_nat_power) simp_all
  then show ?thesis by simp
qed

lemma entropy_5_5_10: "shannon_entropy [5, 5, 10] = 3 / 2"
proof -
  have q: "log 2 (1 / 4 :: real) = - 2" "log 2 (1 / 2 :: real) = - 1"
    by (simp_all add: log_divide log2_4)
  have "shannon_entropy [5, 5, 10]
      = - ((1 / 4) * log 2 (1 / 4 :: real) + ((1 / 4) * log 2 (1 / 4 :: real)
           + (1 / 2) * log 2 (1 / 2 :: real)))"
    unfolding shannon_entropy_def Let_def by simp
  also have "\<dots> = 3 / 2" unfolding q by simp
  finally show ?thesis .
qed

lemma no_underflow_5_5_10: "no_underflow [5, 5, 10]"
proof -
  have "(1::real) / 2 ^ 1000 \<le> 1 / 2 ^ 2"
    by (intro divide_left_mono power_increasing) simp_all
  then have "(1::real) / 2 ^ 1000 \<le> 1 / 4" by simp
  then show ?thesis by (simp add: no_underflow_def)
qed

theorem entropy_properties_witness:
  "normalizeAllScores [Fin 5, Fin 5, Fin 10] [Fin 10, Fin 10, Fin 10]
     = Inr (map Fin [5, 5, 10])
   \<and> [5, 5, 10 :: real] \<noteq> []
   \<and> reported (compute_request lib0 1 [Fin 5, Fin 5, Fin 10] [Fin 10, Fin 10, Fin 10])
        ''entropy'' = Some (Fin (3 / 2))
   \<and> length (filter (\<lambda>x. 0 < x) [5, 5, 10 :: real]) = 3"
proof -
  have h2: "[5, 5, 10 :: real] \<noteq> []" by simp
  have h3: "\<forall>x \<in> set [5, 5, 10 :: real]. 0 \<le> x \<and> x \<le> 10" by simp
  from entropy_properties [OF normalize_5_5_10 h2 h3 no_underflow_5_5_10, of lib0 1]
  obtain h where h: "reported (compute_request lib0 1 [Fin 5, Fin 5, Fin 10]
      [Fin 10, Fin 10, Fin 10]) ''entropy'' = Some (Fin h)"
    and "0 \<le> h" and "h = 0 \<longleftrightarrow> length (filter (\<lambda>x. 0 < x) [5, 5, 10 :: real]) \<le> 1"
    by blast
  from request_entropy [OF normalize_5_5_10 h2, of lib0 1] h
  have "h = 3 / 2" by (auto simp: reported_def entropy_5_5_10)
  with h normalize_5_5_10 h2 show ?thesis by simp
qed









text \<open>
  Inputs without infinities give a finite normalized vector, so the properties above
  cover every request on such inputs.
\<close>

lemma normalizeScore_finite:
  assumes "not_infinite m" and "not_infinite s" and "normalizeScore m s = Inr n"
  shows "\<exists>r. n = Fin r"
  using assms
  by (cases m; cases s)
     (auto simp: not_infinite_def normalizeScore_def fl_ne_def fl_eq_def split: if_splits)

lemma normalizeLoop_finite:
  assumes "\<forall>(s, m) \<in> set ps. not_infinite s \<and> not_infinite m"
    and "normalizeLoop ps (map Fin acc) = Inr v"
  shows "\<exists>xs. v = map Fin xs"
  using assms
proof (induction ps arbitrary: acc)
  case Nil
  then show ?case by auto
next
  case (Cons p ps)
  obtain s m where p: "p = (s, m)" by (cases p)
  from Cons.prems(2) p obtain n where n: "normalizeScore m s = Inr n"
    and rest: "normalizeLoop ps (map Fin acc @ [n]) = Inr v"
    by (cases "normalizeScore m s") auto
  from Cons.prems(1) p have "not_infinite s" "not_infinite m" by auto
  from normalizeScore_finite [OF this(2,1) n] obtain r where "n = Fin r" ..
  with rest have "normalizeLoop ps (map Fin (acc @ [r])) = Inr v" by simp
  moreover from Cons.prems(1) have "\<forall>(s, m) \<in> set ps. not_infinite s \<and> not_infinite m"
    by simp
  ultimately show ?case using Cons.IH by blast
qed

lemma normalizeAllScores_finite:
  assumes "\<forall>s \<in> set ts. not_infinite s" and "\<forall>m \<in> set ms. not_infinite m"
    and "normalizeAllScores ts ms = Inr v"
  shows "\<exists>xs. v = map Fin xs"
proof -
  from assms(1,2) have "\<forall>(s, m) \<in> set (zip ts ms). not_infinite s \<and> not_infinite m"
    by (auto dest: set_zip_leftD set_zip_rightD)
  moreover from assms(3) have "normalizeLoop (zip ts ms) (map Fin []) = Inr v"
    by (simp add: normalizeAllScores_def)
  ultimately show ?thesis by (rule normalizeLoop_finite)
qed

section \<open>The two wrappers and the analyzer of \<open>main.py\<close>\<close>

lemma p_init_cases:
  "p_ComputeStudentPerformance_init sid v =
     (case v of
        [] \<Rightarrow> Inl (ValueError ''zero-size array to reduction operation maximum which has no identity'')
      | x # xs \<Rightarrow>
          Inr \<lparr>p_studentId = sid,
               p_consistencyScoresObj = \<lparr>p_name = ''Consistency Compute Engine'',
                 p_normalizedTestScores = v, p_maximumScore = foldl fl_maximum x xs,
                 p_minimumScore = foldl fl_minimum x xs\<rparr>,
               p_statisticsObj = \<lparr>p_name = ''Statistics Compute Engine'',
                 p_normalizedTestScores = v, p_maximumScore = foldl fl_maximum x xs,
                 p_minimumScore = foldl fl_minimum x xs\<rparr>,
               p_distributionScoresObj = \<lparr>p_name = ''Distribution Compute Engine'',
                 p_normalizedTestScores = v, p_maximumScore = foldl fl_maximum x xs,
                 p_minimumScore = foldl fl_minimum x xs\<rparr>\<rparr>)"
  by (simp add: p_ComputeStudentPerformance_init_def p_ConsistencyComputeEngine_init_def
      p_StatisticsComputeEngine_init_def p_DistributionComputeEngine_init_def
      p_subclass_init_def p_StudentPerformanceComputeEngine_init_def split: list.splits)

lemma init_cases:
  assumes "normalizeAllScores ts ms = Inr v"
  shows "fst (ComputeStudentPerformance_init sid ts ms c) =
     (case v of
        [] \<Rightarrow> Inl (ValueError ''zero-size array to reduction operation maximum which has no identity'')
      | x # xs \<Rightarrow>
          Inr \<lparr>studentId = sid,
               consistencyScoresObj = \<lparr>name = ''Consistency Compute Engine'',
                 testScores = ts, maxScores = ms,
                 normalizedTestScores = v, maximumScore = foldl fl_maximum x xs,
                 minimumScore = foldl fl_minimum x xs\<rparr>,
               statisticsObj = \<lparr>name = ''Statistics Compute Engine'',
                 testScores = ts, maxScores = ms,
                 normalizedTestScores = v, maximumScore = foldl fl_maximum x xs,
                 minimumScore = foldl fl_minimum x xs\<rparr>,
               distributionScoresObj = \<lparr>name = ''Distribution Compute Engine'',
                 testScores = ts, maxScores = ms,
                 normalizedTestScores = v, maximumScore = foldl fl_maximum x xs,
                 minimumScore = foldl fl_minimum x xs\<rparr>\<rparr>)"
  using assms
  by (simp add: ComputeStudentPerformance_init_def ConsistencyComputeEngine_init_def
      StatisticsComputeEngine_init_def DistributionComputeEngine_init_def
      subclass_init_def base_init_cases split: list.splits)

text \<open>
  The report of the wrapper of \<open>s_engine.py\<close> on raw pairs is the report of the wrapper of
  \<open>student_engine.py\<close> on the normalized vector, key for key and value for value (and
  both raise the same error on an empty vector).
\<close>

lemma compute_refines:
  assumes "normalizeAllScores ts ms = Inr v"
  shows "compute_request lib sid ts ms = p_compute_request lib sid v"
proof (cases v)
  case Nil
  with assms show ?thesis
    by (simp add: compute_request_def p_compute_request_def init_cases p_init_cases)
next
  case (Cons x xs)
  with assms show ?thesis
    by (simp add: compute_request_def p_compute_request_def init_cases p_init_cases
        compute_def p_compute_def
        returnConsistencyScores_def p_returnConsistencyScores_def
        returnStatistics_def p_returnStatistics_def
        returnDistributionScores_def p_returnDistributionScores_def
        calculatePercentiles_def p_calculatePercentiles_def
        checkSkewness_def p_checkSkewness_def
        calculateMean_def p_calculateMean_def
        calculateVariance_def p_calculateVariance_def
        calculateStandardDeviation_def p_calculateStandardDeviation_def
        calculateMeanAbsoluteDeviation_def p_calculateMeanAbsoluteDeviation_def
        calculateShannonEntropy_def p_calculateShannonEntropy_def
        calculateRange_def p_calculateRange_def
        calculateCoefficientOfVariation_def p_calculateCoefficientOfVariation_def)
qed

lemma log2_8: "log 2 (8::real) = 3"
proof -
  have "log 2 ((2::real) ^ 3) = 3" by (subst log_nat_power) simp_all
  then show ?thesis by simp
qed

text \<open>
  C10. The two wrappers agree, but the entropy of \<open>DistributionAnalyzer\<close> in \<open>main.py\<close>
  does not equal the entropy of the report: for scores = [8], maxima = [10] the analyzer
  returns \<open>-(8 * log2 8) = -24\<close>, and both wrappers report 0. The analyzer names
  the filtered scores \<open>probabilities\<close> and never divides them by their sum.
\<close>

theorem main_entropy_differs:
  "normalizeAllScores [Fin 8] [Fin 10] = Inr [Fin 8]
   \<and> main_entropy_request 1 [Fin 8] [Fin 10] = Inr (Fin (- 24))
   \<and> reported (compute_request lib0 1 [Fin 8] [Fin 10]) ''entropy'' = Some (Fin 0)
   \<and> reported (p_compute_request lib0 1 [Fin 8]) ''entropy'' = Some (Fin 0)"
proof -
  have n: "normalizeAllScores [Fin 8] [Fin 10] = Inr [Fin 8]"
    using normalize_8 by simp
  have m: "main_entropy_request 1 [Fin 8] [Fin 10] = Inr (Fin (- 24))"
    by (simp add: main_entropy_request_def DistributionAnalyzer_init_def n
        a_calculateShannonEntropy_def np_sum_def fl_gt_def fl_lt_def fl_ne_def fl_eq_def
        log2_8)
  have ne: "[8 :: real] \<noteq> []" by simp
  from request_entropy [OF normalize_8 ne, of lib0 1]
  have s: "reported (compute_request lib0 1 [Fin 8] [Fin 10]) ''entropy'' = Some (Fin 0)"
    by (auto simp: reported_def shannon_entropy_def)
  from s compute_refines [OF n, of lib0 1]
  have p: "reported (p_compute_request lib0 1 [Fin 8]) ''entropy'' = Some (Fin 0)"
    by simp
  from n m s p show ?thesis by simp
qed

end
